theory Spec2Isabelle
  imports Main "HOL-Library.Word"
begin

section \<open>The optimization pipeline: \<open>LLVM_Optimize_Module\<close>\<close>

text \<open>
  The C \<open>int\<close> arguments \<open>CodeOptLevel\<close> and \<open>SizeOptLevel\<close> are 32-bit words
  (\<open>sint\<close> reads them as signed). The function only compares them for equality
  with the literals 0, 1, 2 and 3.
\<close>

type_synonym c_int = "32 word"

datatype OptimizationLevel = O0 | O1 | O2 | O3

text \<open>
  The five members of \<open>PipelineTuningOptions\<close> that the function assigns
  (\<open>PTO.LoopUnrolling\<close> and so on). The other members keep the toolkit's defaults
  and are never touched by the function.
\<close>

record PipelineTuningOptions =
  PTO_LoopUnrolling :: bool
  PTO_LoopInterleaving :: bool
  PTO_LoopVectorization :: bool
  PTO_SLPVectorization :: bool
  PTO_MergeFunctions :: bool

text \<open>
  A module pass manager is the sequence of what was put into it. The four pipeline
  builders of the \<open>PassBuilder\<close> are kept as tokens that record which builder was
  called and with which arguments; \<open>LoopRotatePass\<close> and \<open>OurLoopPass\<close> stand for
  the two loop passes wrapped in their module-to-function and function-to-loop
  adaptors.
\<close>

datatype pass =
    O0DefaultPipeline OptimizationLevel bool
  | ThinLTOPreLinkDefaultPipeline OptimizationLevel
  | LTOPreLinkDefaultPipeline OptimizationLevel
  | PerModuleDefaultPipeline OptimizationLevel
  | LoopRotatePass
  | OurLoopPass

type_synonym ModulePassManager = "pass list"

text \<open>A loaded plugin is an opaque handle.\<close>

type_synonym PassPlugin = nat

text \<open>
  The calls with an effect outside the function, in the order they are made:
  the registration of the plugin's callbacks, the registration of the analyses,
  and the run of the pass manager over the module.
\<close>

datatype action =
    registerPassBuilderCallbacks PassPlugin
  | registerPass_DefaultAAPipeline
  | registerPass_TargetLibraryAnalysis string
  | registerModuleAnalyses
  | registerCGSCCAnalyses
  | registerFunctionAnalyses
  | registerLoopAnalyses
  | crossRegisterProxies
  | run ModulePassManager

text \<open>
  What a call leaves behind: the returned \<open>LLVMBool\<close>, the contents of the
  \<open>ErrorMessage\<close> out-parameter, the locals \<open>Level\<close> and \<open>PTO\<close>, the pass manager
  (\<open>None\<close> when the function returned before declaring it) and the calls made.

  The out-parameter \<open>char **ErrorMessage\<close> is \<open>None\<close> for a null pointer and
  \<open>Some c\<close> for a pointer to a \<open>char *\<close> slot holding \<open>c\<close> (itself \<open>None\<close> when
  that slot holds no string).
\<close>

record run_result =
  status :: c_int
  ErrorMessage_out :: "string option option"
  Level :: OptimizationLevel
  PTO :: PipelineTuningOptions
  MPM :: "ModulePassManager option"
  actions :: "action list"

text \<open>
  The block \<open>if (PassPluginName != nullptr) { ... }\<close>. \<open>Load\<close> is the toolkit's
  \<open>PassPlugin::Load\<close>: \<open>Inl msg\<close> is the \<open>StringError\<close> it fails with, \<open>Inr p\<close>
  the loaded plugin. The block yields \<open>Inl msg\<close> where the function returns 1, and
  otherwise the calls made so far.
\<close>

definition load_pass_plugin ::
  "(string \<Rightarrow> string + PassPlugin) \<Rightarrow> string option \<Rightarrow> string + action list"
where
  "load_pass_plugin Load PassPluginName =
     (case PassPluginName of
        None \<Rightarrow> Inr []
      | Some name \<Rightarrow>
          (case Load name of
             Inl msg \<Rightarrow> Inl msg
           | Inr Plugin \<Rightarrow> Inr [registerPassBuilderCallbacks Plugin]))"

text \<open>
  \<open>LLVM_Optimize_Module\<close>, argument by argument as in the source, with the target
  triple of the module \<open>M\<close> in place of \<open>M\<close> (the function reads nothing else of
  it) and without \<open>TM\<close>, which is only handed to the \<open>PassBuilder\<close>.
\<close>

definition LLVM_Optimize_Module ::
  "(string \<Rightarrow> string + PassPlugin) \<Rightarrow> string \<Rightarrow> c_int \<Rightarrow> c_int \<Rightarrow> bool \<Rightarrow>
   bool \<Rightarrow> bool \<Rightarrow> bool \<Rightarrow> bool \<Rightarrow> bool \<Rightarrow> bool \<Rightarrow> bool \<Rightarrow>
   string option \<Rightarrow> string option option \<Rightarrow> run_result"
where
  "LLVM_Optimize_Module Load TargetTriple CodeOptLevel SizeOptLevel NeedLoopInfo
     NoUnrollLoops NoLoopVectorization NoSLPVectorization MergeFunctions
     PrepareForThinLTO PrepareForLTO RerollLoops PassPluginName ErrorMessage =
   (let lvl = (if CodeOptLevel = 1 then O1
               else if CodeOptLevel = 2 then O2
               else if CodeOptLevel = 3 then O3
               else O0);
        pto = \<lparr>PTO_LoopUnrolling = \<not> NoUnrollLoops,
               PTO_LoopInterleaving = \<not> NoUnrollLoops,
               PTO_LoopVectorization = \<not> NoLoopVectorization,
               PTO_SLPVectorization = \<not> NoSLPVectorization,
               PTO_MergeFunctions = MergeFunctions\<rparr>
    in case load_pass_plugin Load PassPluginName of
         Inl msg \<Rightarrow>
           \<lparr>status = 1,
            ErrorMessage_out =
              (case ErrorMessage of None \<Rightarrow> None | Some old \<Rightarrow> Some (Some msg)),
            Level = lvl, PTO = pto, MPM = None, actions = []\<rparr>
       | Inr loaded \<Rightarrow>
           (let registered = loaded @
                  [registerPass_DefaultAAPipeline,
                   registerPass_TargetLibraryAnalysis TargetTriple,
                   registerModuleAnalyses, registerCGSCCAnalyses,
                   registerFunctionAnalyses, registerLoopAnalyses,
                   crossRegisterProxies];
                mpm0 =
                  (if CodeOptLevel = 0 then
                     [O0DefaultPipeline lvl (PrepareForLTO \<or> PrepareForThinLTO)] @
                     (if NeedLoopInfo then [LoopRotatePass] else [])
                   else if PrepareForThinLTO then [ThinLTOPreLinkDefaultPipeline lvl]
                   else if PrepareForLTO then [LTOPreLinkDefaultPipeline lvl]
                   else [PerModuleDefaultPipeline lvl]);
                mpm = (if NeedLoopInfo then mpm0 @ [OurLoopPass] else mpm0)
            in \<lparr>status = 0, ErrorMessage_out = ErrorMessage,
                Level = lvl, PTO = pto, MPM = Some mpm,
                actions = registered @ [run mpm]\<rparr>))"

text \<open>
  Two readings of the pass manager a call leaves behind: the pipeline it was
  assigned from the \<open>PassBuilder\<close> (\<open>MPM = PB.build...\<close>), and the passes
  appended to it afterwards by \<open>MPM.addPass\<close>, in order.
\<close>

definition main_pipeline :: "run_result \<Rightarrow> pass option" where
  "main_pipeline r = (case MPM r of Some (p # ps) \<Rightarrow> Some p | _ \<Rightarrow> None)"

definition added_passes :: "run_result \<Rightarrow> pass list" where
  "added_passes r = (case MPM r of Some (p # ps) \<Rightarrow> ps | _ \<Rightarrow> [])"

fun is_run :: "action \<Rightarrow> bool" where
  "is_run (run mpm) = True"
| "is_run _ = False"

text \<open>
  \<open>OurLoopPass::run\<close>. It reads five properties of the loop into locals and returns
  \<open>PreservedAnalyses::all ()\<close>; the loop is passed by reference, so the model returns
  it as well.
\<close>

type_synonym BasicBlock = nat
type_synonym Instruction = nat

record Loop =
  getLoopPreheader :: "BasicBlock option"
  getHeader :: BasicBlock
  getLoopLatch :: "BasicBlock option"
  getLatchCmpInst :: "Instruction option"
  isLoopSimplifyForm :: bool

datatype PreservedAnalyses = PreservedAnalyses_all | PreservedAnalyses_none

definition OurLoopPass_run :: "Loop \<Rightarrow> Loop \<times> PreservedAnalyses" where
  "OurLoopPass_run L =
     (let pre = getLoopPreheader L;
          header = getHeader L;
          latch = getLoopLatch L;
          cmp = getLatchCmpInst L;
          issimple = isLoopSimplifyForm L
      in (L, PreservedAnalyses_all))"

section \<open>Alias metadata: \<open>Create_TBAA_Access_Tag\<close>\<close>

text \<open>
  Metadata nodes as the callers of this layer see them: a node that exists already
  (known by its identity), the null pointer, or the node that the toolkit's
  \<open>MDBuilder::createTBAAAccessTag\<close> makes, kept as the five arguments of the call.
\<close>

type_synonym uint64_t = "64 word"

datatype MDNode =
    MDNode_null
  | MDNode_at nat
  | createTBAAAccessTag (tag_base: MDNode) (tag_access: MDNode)
      (tag_offset: uint64_t) (tag_size: uint64_t) (tag_flag: bool)

definition Create_TBAA_Access_Tag ::
  "MDNode \<Rightarrow> MDNode \<Rightarrow> uint64_t \<Rightarrow> uint64_t \<Rightarrow> MDNode"
where
  "Create_TBAA_Access_Tag BaseType AccessType offset size' =
     createTBAAAccessTag BaseType AccessType offset size' False"

section \<open>Constants: \<open>Convert_FP_To_String\<close>\<close>































subsection \<open>Reading a text back\<close>




definition decimal_chars :: "char set" where
  "decimal_chars = set ''0123456789''"


definition digits_value :: "string \<Rightarrow> nat" where
  "digits_value ds = foldl (\<lambda>a c. 10 * a + (of_char c - 48)) 0 ds"

definition is_digits :: "string \<Rightarrow> bool" where
  "is_digits ds = (ds \<noteq> [] \<and> set ds \<subseteq> decimal_chars)"

definition decimal_exponent :: "string \<Rightarrow> int option" where
  "decimal_exponent r =
     (if r = [] then Some 0
      else if hd r = CHR ''e'' \<or> hd r = CHR ''E'' then
        (let r' = tl r
         in if r' \<noteq> [] \<and> hd r' = CHR ''-'' then
              (if is_digits (tl r') then Some (- int (digits_value (tl r'))) else None)
            else if r' \<noteq> [] \<and> hd r' = CHR ''+'' then
              (if is_digits (tl r') then Some (int (digits_value (tl r'))) else None)
            else if is_digits r' then Some (int (digits_value r')) else None)
      else None)"

definition decimal_value :: "string \<Rightarrow> (int \<times> int) option" where
  "decimal_value t =
     (let neg = (t \<noteq> [] \<and> hd t = CHR ''-'');
          r = (if neg then tl t else t);
          ip = takeWhile (\<lambda>c. c \<in> decimal_chars) r;
          r = dropWhile (\<lambda>c. c \<in> decimal_chars) r;
          point = (r \<noteq> [] \<and> hd r = CHR ''.'');
          fp = (if point then takeWhile (\<lambda>c. c \<in> decimal_chars) (tl r) else []);
          r = (if point then dropWhile (\<lambda>c. c \<in> decimal_chars) (tl r) else r)
      in if ip = [] then None
         else (case decimal_exponent r of
                 None \<Rightarrow> None
               | Some x \<Rightarrow>
                   Some ((if neg then - 1 else 1) * int (digits_value (ip @ fp)),
                         x - int (length fp))))"



section \<open>Value lifetime: \<open>GNATCallbackVH\<close> and \<open>Notify_On_Value_Delete\<close>\<close>

text \<open>
  IR values and callbacks are known by their addresses. A \<open>GNATCallbackVH\<close> object
  lives in a store from addresses to its two members; the store holds the live
  objects only, so storage that has been released has no entry. The base class
  \<open>CallbackVH (V)\<close> puts the object on the list of handles of \<open>V\<close>, and its
  destructor takes it off that list.
\<close>

type_synonym Value = nat
type_synonym callback = nat
type_synonym addr = nat

record GNATCallbackVH =
  val :: Value
  fn :: callback

datatype event = released addr | called callback Value

record tracker =
  store :: "addr \<rightharpoonup> GNATCallbackVH"
  handles :: "Value \<Rightarrow> addr list"
  next_addr :: addr
  events :: "event list"

definition no_registrations :: tracker where
  "no_registrations =
     \<lparr>store = Map.empty, handles = (\<lambda>V. []), next_addr = 0, events = []\<rparr>"

datatype vh_error = UseAfterFree addr

text \<open>\<open>new GNATCallbackVH (V, Fn)\<close>: the address of the new object and the new state.\<close>

definition new_GNATCallbackVH :: "Value \<Rightarrow> callback \<Rightarrow> tracker \<Rightarrow> addr \<times> tracker" where
  "new_GNATCallbackVH V Fn s =
     (let this = next_addr s
      in (this,
          s\<lparr>store := (store s)(this \<mapsto> \<lparr>val = V, fn = Fn\<rparr>),
            handles := (handles s)(V := this # handles s V),
            next_addr := this + 1\<rparr>))"

definition Notify_On_Value_Delete :: "Value \<Rightarrow> callback \<Rightarrow> tracker \<Rightarrow> tracker" where
  "Notify_On_Value_Delete V Fn s = (let (CB, s') = new_GNATCallbackVH V Fn s in s')"

text \<open>
  \<open>delete this\<close>: the destructor of the base class takes the object off the handle
  list of its value, then the storage is released. Releasing storage that is not
  live is an error as well.
\<close>

definition delete_this :: "addr \<Rightarrow> tracker \<Rightarrow> vh_error \<times> tracker + tracker" where
  "delete_this this s =
     (case store s this of
        None \<Rightarrow> Inl (UseAfterFree this, s)
      | Some obj \<Rightarrow>
          Inr (s\<lparr>handles := (handles s)(val obj := remove1 this (handles s (val obj))),
                 store := (store s)(this := None),
                 events := events s @ [released this]\<rparr>))"

text \<open>
  \<open>GNATCallbackVH::deleted\<close>, statement by statement: \<open>delete this\<close>, then the call
  \<open>(this->fn) (this->val)\<close>, whose two member reads go to the store.
\<close>

definition deleted :: "addr \<Rightarrow> tracker \<Rightarrow> vh_error \<times> tracker + tracker" where
  "deleted this s =
     (case delete_this this s of
        Inl e \<Rightarrow> Inl e
      | Inr s1 \<Rightarrow>
          (case store s1 this of
             None \<Rightarrow> Inl (UseAfterFree this, s1)
           | Some obj \<Rightarrow> Inr (s1\<lparr>events := events s1 @ [called (fn obj) (val obj)]\<rparr>)))"

text \<open>
  The toolkit's side: when the value \<open>V\<close> is destroyed, \<open>deleted\<close> is called on each
  handle that is on the list of \<open>V\<close> at that moment and is still live when its turn
  comes. The first error ends the run.
\<close>

fun notify_handles :: "addr list \<Rightarrow> tracker \<Rightarrow> vh_error \<times> tracker + tracker" where
  "notify_handles [] s = Inr s"
| "notify_handles (h # hs) s =
     (if store s h = None then notify_handles hs s
      else (case deleted h s of
              Inl e \<Rightarrow> Inl e
            | Inr s' \<Rightarrow> notify_handles hs s'))"

definition ValueIsDeleted :: "Value \<Rightarrow> tracker \<Rightarrow> vh_error \<times> tracker + tracker" where
  "ValueIsDeleted V s = notify_handles (handles s V) s"

text \<open>How often the callback \<open>Fn\<close> was called with \<open>V\<close>.\<close>

definition times_called :: "callback \<Rightarrow> Value \<Rightarrow> tracker \<Rightarrow> nat" where
  "times_called Fn V s = length (filter (\<lambda>e. e = called Fn V) (events s))"

section \<open>Properties of the pipeline\<close>

text \<open>
  C5. The optimization level member is 1 -> O1, 2 -> O2, 3 -> O3 and O0 for every
  other value of \<open>CodeOptLevel\<close>; two calls that differ only in \<open>SizeOptLevel\<close>
  leave the same result behind (status, message, level, options, pass manager and
  calls made).
\<close>

theorem Level_from_CodeOptLevel_only:
  "Level (LLVM_Optimize_Module Load TargetTriple CodeOptLevel SizeOptLevel NeedLoopInfo
       NoUnrollLoops NoLoopVectorization NoSLPVectorization MergeFunctions
       PrepareForThinLTO PrepareForLTO RerollLoops PassPluginName ErrorMessage)
     = (if CodeOptLevel = 1 then O1 else if CodeOptLevel = 2 then O2
        else if CodeOptLevel = 3 then O3 else O0)
   \<and> LLVM_Optimize_Module Load TargetTriple CodeOptLevel SizeOptLevel NeedLoopInfo
       NoUnrollLoops NoLoopVectorization NoSLPVectorization MergeFunctions
       PrepareForThinLTO PrepareForLTO RerollLoops PassPluginName ErrorMessage
     = LLVM_Optimize_Module Load TargetTriple CodeOptLevel SizeOptLevel' NeedLoopInfo
       NoUnrollLoops NoLoopVectorization NoSLPVectorization MergeFunctions
       PrepareForThinLTO PrepareForLTO RerollLoops PassPluginName ErrorMessage"
  by (simp add: LLVM_Optimize_Module_def Let_def split: sum.split)

lemma load_pass_plugin_Inr:
  "load_pass_plugin Load PassPluginName = Inr loaded \<longleftrightarrow>
     (PassPluginName = None \<and> loaded = []) \<or>
     (\<exists>name p. PassPluginName = Some name \<and> Load name = Inr p \<and>
        loaded = [registerPassBuilderCallbacks p])"
  by (auto simp: load_pass_plugin_def split: option.splits sum.splits)

lemma load_pass_plugin_Inl:
  "load_pass_plugin Load PassPluginName = Inl msg \<longleftrightarrow>
     (\<exists>name. PassPluginName = Some name \<and> Load name = Inl msg)"
  by (auto simp: load_pass_plugin_def split: option.splits sum.splits)

text \<open>
  C6. Loop unrolling and loop interleaving are both the negation of
  \<open>NoUnrollLoops\<close>, hence always equal; loop vectorization and SLP vectorization
  are the negations of their own flags; function merging equals its flag.
\<close>

theorem tuning_options_from_flags:
  "(let r = LLVM_Optimize_Module Load TargetTriple CodeOptLevel SizeOptLevel NeedLoopInfo
       NoUnrollLoops NoLoopVectorization NoSLPVectorization MergeFunctions
       PrepareForThinLTO PrepareForLTO RerollLoops PassPluginName ErrorMessage
    in PTO_LoopUnrolling (PTO r) = (\<not> NoUnrollLoops)
     \<and> PTO_LoopInterleaving (PTO r) = (\<not> NoUnrollLoops)
     \<and> PTO_LoopUnrolling (PTO r) = PTO_LoopInterleaving (PTO r)
     \<and> PTO_LoopVectorization (PTO r) = (\<not> NoLoopVectorization)
     \<and> PTO_SLPVectorization (PTO r) = (\<not> NoSLPVectorization)
     \<and> PTO_MergeFunctions (PTO r) = MergeFunctions)"
  by (simp add: LLVM_Optimize_Module_def Let_def split: sum.split)

text \<open>
  C3. When the plugin block does not return, the pipeline assigned to the pass
  manager is chosen by the first case that matches, in this order: level 0 gives the
  O0 default pipeline; otherwise thin-LTO prepare gives the thin-LTO pre-link
  pipeline, whatever the full-LTO flag; otherwise full-LTO prepare gives the LTO
  pre-link pipeline; otherwise the per-module default pipeline.
\<close>

theorem pipeline_first_match_wins:
  assumes "load_pass_plugin Load PassPluginName = Inr loaded"
  shows "(let r = LLVM_Optimize_Module Load TargetTriple CodeOptLevel SizeOptLevel
              NeedLoopInfo NoUnrollLoops NoLoopVectorization NoSLPVectorization
              MergeFunctions PrepareForThinLTO PrepareForLTO RerollLoops
              PassPluginName ErrorMessage
          in main_pipeline r = Some
              (if CodeOptLevel = 0
                 then O0DefaultPipeline (Level r) (PrepareForLTO \<or> PrepareForThinLTO)
               else if PrepareForThinLTO then ThinLTOPreLinkDefaultPipeline (Level r)
               else if PrepareForLTO then LTOPreLinkDefaultPipeline (Level r)
               else PerModuleDefaultPipeline (Level r)))"
  using assms by (simp add: LLVM_Optimize_Module_def main_pipeline_def Let_def)

theorem pipeline_first_match_wins_witness:
  "load_pass_plugin (\<lambda>n. Inl ''no such file'') None = Inr []
   \<and> main_pipeline (LLVM_Optimize_Module (\<lambda>n. Inl ''no such file'') ''x86_64-linux''
        2 0 False False False False False True True False None None)
       = Some (ThinLTOPreLinkDefaultPipeline O2)
   \<and> main_pipeline (LLVM_Optimize_Module (\<lambda>n. Inl ''no such file'') ''x86_64-linux''
        0 0 False False False False False False False False None None)
       = Some (O0DefaultPipeline O0 False)"
proof -
  have h: "load_pass_plugin (\<lambda>n. Inl ''no such file'') None = Inr []"
    by (simp add: load_pass_plugin_def)
  show ?thesis
    using h
      pipeline_first_match_wins [OF h, where CodeOptLevel = 2 and PrepareForThinLTO = True
        and PrepareForLTO = True and TargetTriple = "''x86_64-linux''" and SizeOptLevel = 0
        and NeedLoopInfo = False and NoUnrollLoops = False and NoLoopVectorization = False
        and NoSLPVectorization = False and MergeFunctions = False and RerollLoops = False
        and ErrorMessage = None]
      pipeline_first_match_wins [OF h, where CodeOptLevel = 0 and PrepareForThinLTO = False
        and PrepareForLTO = False and TargetTriple = "''x86_64-linux''" and SizeOptLevel = 0
        and NeedLoopInfo = False and NoUnrollLoops = False and NoLoopVectorization = False
        and NoSLPVectorization = False and MergeFunctions = False and RerollLoops = False
        and ErrorMessage = None]
    by (simp add: Let_def LLVM_Optimize_Module_def)
qed

text \<open>
  C10. At level 0, when the plugin block does not return, the O0 default pipeline is
  built with the disjunction of the two prepare flags as its LTO argument, so two
  level-0 calls get the same pipeline exactly when these disjunctions agree.
\<close>

theorem O0_pipeline_takes_lto_flags:
  assumes "load_pass_plugin Load PassPluginName = Inr loaded"
  shows "main_pipeline (LLVM_Optimize_Module Load TargetTriple 0 SizeOptLevel
              NeedLoopInfo NoUnrollLoops NoLoopVectorization NoSLPVectorization
              MergeFunctions PrepareForThinLTO PrepareForLTO RerollLoops
              PassPluginName ErrorMessage)
           = Some (O0DefaultPipeline O0 (PrepareForLTO \<or> PrepareForThinLTO))
       \<and> (main_pipeline (LLVM_Optimize_Module Load TargetTriple 0 SizeOptLevel
              NeedLoopInfo NoUnrollLoops NoLoopVectorization NoSLPVectorization
              MergeFunctions PrepareForThinLTO PrepareForLTO RerollLoops
              PassPluginName ErrorMessage)
           = main_pipeline (LLVM_Optimize_Module Load TargetTriple 0 SizeOptLevel
              NeedLoopInfo NoUnrollLoops NoLoopVectorization NoSLPVectorization
              MergeFunctions PrepareForThinLTO' PrepareForLTO' RerollLoops
              PassPluginName ErrorMessage))
         = ((PrepareForLTO \<or> PrepareForThinLTO) = (PrepareForLTO' \<or> PrepareForThinLTO'))"
  using assms by (simp add: LLVM_Optimize_Module_def main_pipeline_def Let_def)

theorem O0_pipeline_takes_lto_flags_witness:
  "load_pass_plugin (\<lambda>n. Inr 7) (Some ''plugin.so'') = Inr [registerPassBuilderCallbacks 7]
   \<and> main_pipeline (LLVM_Optimize_Module (\<lambda>n. Inr 7) ''x86_64-linux''
        0 0 False False False False False True False False (Some ''plugin.so'') None)
       = Some (O0DefaultPipeline O0 True)
   \<and> main_pipeline (LLVM_Optimize_Module (\<lambda>n. Inr 7) ''x86_64-linux''
        0 0 False False False False False True False False (Some ''plugin.so'') None)
       \<noteq> main_pipeline (LLVM_Optimize_Module (\<lambda>n. Inr 7) ''x86_64-linux''
        0 0 False False False False False False False False (Some ''plugin.so'') None)"
proof -
  have h: "load_pass_plugin (\<lambda>n. Inr 7) (Some ''plugin.so'')
             = Inr [registerPassBuilderCallbacks 7]"
    by (simp add: load_pass_plugin_def)
  show ?thesis
    using h
      O0_pipeline_takes_lto_flags [OF h, where PrepareForThinLTO = True
        and PrepareForLTO = False and PrepareForThinLTO' = False and PrepareForLTO' = False
        and TargetTriple = "''x86_64-linux''" and SizeOptLevel = 0
        and NeedLoopInfo = False and NoUnrollLoops = False and NoLoopVectorization = False
        and NoSLPVectorization = False and MergeFunctions = False and RerollLoops = False
        and ErrorMessage = None]
      O0_pipeline_takes_lto_flags [OF h, where PrepareForThinLTO = False
        and PrepareForLTO = False and PrepareForThinLTO' = False and PrepareForLTO' = False
        and TargetTriple = "''x86_64-linux''" and SizeOptLevel = 0
        and NeedLoopInfo = False and NoUnrollLoops = False and NoLoopVectorization = False
        and NoSLPVectorization = False and MergeFunctions = False and RerollLoops = False
        and ErrorMessage = None]
    by simp
qed

text \<open>
  C7. When the plugin block does not return, the pass manager is the assigned
  pipeline followed by the appended passes. With \<open>NeedLoopInfo\<close> the appended passes
  end with \<open>OurLoopPass\<close> at every level, preceded by \<open>LoopRotatePass\<close> exactly when
  \<open>CodeOptLevel\<close> is 0; without it nothing is appended. \<open>OurLoopPass\<close> leaves the loop
  as it found it and preserves all analyses.
\<close>

theorem loop_info_pass_appended:
  assumes "load_pass_plugin Load PassPluginName = Inr loaded"
  shows "(let r = LLVM_Optimize_Module Load TargetTriple CodeOptLevel SizeOptLevel
              NeedLoopInfo NoUnrollLoops NoLoopVectorization NoSLPVectorization
              MergeFunctions PrepareForThinLTO PrepareForLTO RerollLoops
              PassPluginName ErrorMessage
          in (\<exists>main. main_pipeline r = Some main
                \<and> MPM r = Some (main # added_passes r))
           \<and> added_passes r =
               (if NeedLoopInfo
                  then (if CodeOptLevel = 0 then [LoopRotatePass] else []) @ [OurLoopPass]
                else [])
           \<and> OurLoopPass_run L = (L, PreservedAnalyses_all))"
  using assms
  by (simp add: LLVM_Optimize_Module_def main_pipeline_def added_passes_def
      OurLoopPass_run_def Let_def)

theorem loop_info_pass_appended_witness:
  "load_pass_plugin (\<lambda>n. Inl ''no such file'') None = Inr []
   \<and> MPM (LLVM_Optimize_Module (\<lambda>n. Inl ''no such file'') ''x86_64-linux''
        0 0 True False False False False False False False None None)
       = Some [O0DefaultPipeline O0 False, LoopRotatePass, OurLoopPass]
   \<and> MPM (LLVM_Optimize_Module (\<lambda>n. Inl ''no such file'') ''x86_64-linux''
        3 0 True False False False False False False False None None)
       = Some [PerModuleDefaultPipeline O3, OurLoopPass]"
proof -
  have h: "load_pass_plugin (\<lambda>n. Inl ''no such file'') None = Inr []"
    by (simp add: load_pass_plugin_def)
  have a: "main_pipeline (LLVM_Optimize_Module (\<lambda>n. Inl ''no such file'') ''x86_64-linux''
        0 0 True False False False False False False False None None)
       = Some (O0DefaultPipeline O0 False)"
    by (simp add: LLVM_Optimize_Module_def main_pipeline_def load_pass_plugin_def Let_def)
  have b: "main_pipeline (LLVM_Optimize_Module (\<lambda>n. Inl ''no such file'') ''x86_64-linux''
        3 0 True False False False False False False False None None)
       = Some (PerModuleDefaultPipeline O3)"
    by (simp add: LLVM_Optimize_Module_def main_pipeline_def load_pass_plugin_def Let_def)
  show ?thesis
    using h a b
      loop_info_pass_appended [OF h, where CodeOptLevel = 0 and NeedLoopInfo = True
        and PrepareForThinLTO = False and PrepareForLTO = False
        and TargetTriple = "''x86_64-linux''" and SizeOptLevel = 0
        and NoUnrollLoops = False and NoLoopVectorization = False
        and NoSLPVectorization = False and MergeFunctions = False and RerollLoops = False
        and ErrorMessage = None]
      loop_info_pass_appended [OF h, where CodeOptLevel = 3 and NeedLoopInfo = True
        and PrepareForThinLTO = False and PrepareForLTO = False
        and TargetTriple = "''x86_64-linux''" and SizeOptLevel = 0
        and NoUnrollLoops = False and NoLoopVectorization = False
        and NoSLPVectorization = False and MergeFunctions = False and RerollLoops = False
        and ErrorMessage = None]
    by (simp add: Let_def)
qed

text \<open>
  C4, with the guard on the message. If a plugin path is given and loading fails, the call
  returns 1, has registered no analysis, built no pass manager and run nothing; the
  error's message is stored in the caller's \<open>ErrorMessage\<close> slot when that pointer is
  not null, and nothing is stored when it is null. If no plugin path is given or
  loading succeeds, the call returns 0 and has run the assembled pass manager exactly
  once, as its last call.
\<close>

theorem plugin_failure_aborts_run:
  "(let r = LLVM_Optimize_Module Load TargetTriple CodeOptLevel SizeOptLevel
              NeedLoopInfo NoUnrollLoops NoLoopVectorization NoSLPVectorization
              MergeFunctions PrepareForThinLTO PrepareForLTO RerollLoops
              PassPluginName ErrorMessage
    in ((\<exists>name. PassPluginName = Some name \<and> Load name = Inl msg) \<longrightarrow>
          status r = 1
          \<and> ErrorMessage_out r =
              (case ErrorMessage of None \<Rightarrow> None | Some old \<Rightarrow> Some (Some msg))
          \<and> MPM r = None \<and> actions r = [])
     \<and> (PassPluginName = None
          \<or> (\<exists>name p. PassPluginName = Some name \<and> Load name = Inr p) \<longrightarrow>
          status r = 0
          \<and> (\<exists>mpm. MPM r = Some mpm \<and> last (actions r) = run mpm)
          \<and> length (filter is_run (actions r)) = 1))"
proof (cases "load_pass_plugin Load PassPluginName")
  case (Inl m)
  then obtain name where "PassPluginName = Some name" "Load name = Inl m"
    by (auto simp: load_pass_plugin_Inl)
  with Inl show ?thesis
    by (auto simp: LLVM_Optimize_Module_def Let_def)
next
  case (Inr loaded)
  then have "filter is_run loaded = []" and "\<not> (\<exists>name. PassPluginName = Some name \<and> Load name = Inl msg)"
    by (auto simp: load_pass_plugin_Inr)
  with Inr show ?thesis
    by (simp add: LLVM_Optimize_Module_def Let_def)
qed

theorem plugin_failure_aborts_run_witness:
  "(\<exists>name. Some ''plugin.so'' = Some name
        \<and> (\<lambda>n. Inl ''Could not load library'' :: string + PassPlugin) name
            = Inl ''Could not load library'')
   \<and> status (LLVM_Optimize_Module (\<lambda>n. Inl ''Could not load library'') ''x86_64-linux''
        2 0 True False False False False False False False
        (Some ''plugin.so'') (Some None)) = 1
   \<and> ErrorMessage_out (LLVM_Optimize_Module (\<lambda>n. Inl ''Could not load library'')
        ''x86_64-linux'' 2 0 True False False False False False False False
        (Some ''plugin.so'') (Some None)) = Some (Some ''Could not load library'')
   \<and> actions (LLVM_Optimize_Module (\<lambda>n. Inl ''Could not load library'')
        ''x86_64-linux'' 2 0 True False False False False False False False
        (Some ''plugin.so'') (Some None)) = []
   \<and> status (LLVM_Optimize_Module (\<lambda>n. Inl ''Could not load library'') ''x86_64-linux''
        2 0 True False False False False False False False None (Some None)) = 0
   \<and> length (filter is_run (actions (LLVM_Optimize_Module
        (\<lambda>n. Inl ''Could not load library'') ''x86_64-linux''
        2 0 True False False False False False False False None (Some None)))) = 1"
  using
    plugin_failure_aborts_run [where Load = "\<lambda>n. Inl ''Could not load library''"
      and msg = "''Could not load library''" and PassPluginName = "Some ''plugin.so''"
      and ErrorMessage = "Some None" and CodeOptLevel = 2 and NeedLoopInfo = True
      and PrepareForThinLTO = False and PrepareForLTO = False
      and TargetTriple = "''x86_64-linux''" and SizeOptLevel = 0
      and NoUnrollLoops = False and NoLoopVectorization = False
      and NoSLPVectorization = False and MergeFunctions = False and RerollLoops = False]
    plugin_failure_aborts_run [where Load = "\<lambda>n. Inl ''Could not load library''"
      and msg = "''Could not load library''" and PassPluginName = None
      and ErrorMessage = "Some None" and CodeOptLevel = 2 and NeedLoopInfo = True
      and PrepareForThinLTO = False and PrepareForLTO = False
      and TargetTriple = "''x86_64-linux''" and SizeOptLevel = 0
      and NoUnrollLoops = False and NoLoopVectorization = False
      and NoSLPVectorization = False and MergeFunctions = False and RerollLoops = False]
  by (simp add: Let_def)

text \<open>
  C4 without the guard does not hold: with a plugin that does not load and a null
  \<open>ErrorMessage\<close> pointer the call returns 1 and hands no message back.
\<close>

theorem plugin_failure_without_message:
  "status (LLVM_Optimize_Module (\<lambda>n. Inl ''Could not load library'') ''x86_64-linux''
        2 0 False False False False False False False False
        (Some ''plugin.so'') None) = 1
   \<and> \<not> (\<exists>m. ErrorMessage_out (LLVM_Optimize_Module
        (\<lambda>n. Inl ''Could not load library'') ''x86_64-linux''
        2 0 False False False False False False False False
        (Some ''plugin.so'') None) = Some (Some m))"
  by (simp add: LLVM_Optimize_Module_def load_pass_plugin_def Let_def)

section \<open>Properties of the access tag\<close>

text \<open>
  C9. Whatever the base type, access type, offset and size, the access tag is made
  with \<open>false\<close> as the final argument of the builder's call: no input gives a tag
  whose flag is set.
\<close>

theorem access_tag_flag_cleared:
  "Create_TBAA_Access_Tag BaseType AccessType offset size'
     = createTBAAAccessTag BaseType AccessType offset size' False
   \<and> tag_flag (Create_TBAA_Access_Tag BaseType AccessType offset size') = False
   \<and> (\<forall>b a off sz.
        Create_TBAA_Access_Tag BaseType AccessType offset size'
          \<noteq> createTBAAAccessTag b a off sz True)"
  by (simp add: Create_TBAA_Access_Tag_def)

section \<open>Properties of the text of a constant\<close>

subsection \<open>The hexadecimal digits denote the number they were made from\<close>













subsection \<open>The digits in the buffer\<close>



















subsection \<open>The form of the scientific text\<close>



subsection \<open>Evaluation on given values\<close>




lemmas dv = decimal_value_def decimal_exponent_def is_digits_def digits_value_def
  decimal_chars_def Let_def



lemma dv3: "decimal_value ''-2.5E-3'' = Some (- 25, - 4)"
  by (simp add: dv)


subsection \<open>The three cases of \<open>Convert_FP_To_String\<close>\<close>










section \<open>Properties of the value lifetime tracker\<close>

lemma delete_this_live:
  "store s this = Some obj \<Longrightarrow>
   delete_this this s =
     Inr (s\<lparr>handles := (handles s)(val obj := remove1 this (handles s (val obj))),
            store := (store s)(this := None),
            events := events s @ [released this]\<rparr>)"
  by (simp add: delete_this_def)

lemma deleted_live:
  "store s this = Some obj \<Longrightarrow>
   deleted this s =
     Inl (UseAfterFree this,
          s\<lparr>handles := (handles s)(val obj := remove1 this (handles s (val obj))),
            store := (store s)(this := None),
            events := events s @ [released this]\<rparr>)"
  by (simp add: deleted_def delete_this_live)

lemma deleted_never_returns: "deleted this s \<noteq> Inr s'"
  by (auto simp: deleted_def delete_this_def split: option.splits)

text \<open>
  C1. The callback is meant to be called with the tracked value first and the
  storage of the registration to be released afterwards. \<open>deleted\<close> does it the
  other way round: after
  \<open>Notify_On_Value_Delete (7, 3)\<close> on a tracker without registrations, \<open>deleted\<close> on
  the registration (at address 0) releases its storage first and then reads
  \<open>fn\<close> and \<open>val\<close> from the released storage. The only event is the release; no
  call has been made from live storage.
\<close>

theorem deleted_releases_before_call:
  "\<exists>s. deleted 0 (Notify_On_Value_Delete 7 3 no_registrations)
          = Inl (UseAfterFree 0, s)
       \<and> events s = [released 0] \<and> store s 0 = None"
  by (simp add: deleted_def delete_this_def Notify_On_Value_Delete_def
      new_GNATCallbackVH_def no_registrations_def)

text \<open>
  C2. The callback is meant to be called exactly once with the tracked value. After
  \<open>Notify_On_Value_Delete (7, 3)\<close> the destruction of value 7 ends in the read of
  released storage instead: the callback 3 has been called no time with 7 from the
  members of a live registration. The registration is off the list of value 7 by
  then, so a second destruction event calls nothing.
\<close>

theorem tracked_value_deleted_use_after_free:
  "\<exists>s. ValueIsDeleted 7 (Notify_On_Value_Delete 7 3 no_registrations)
          = Inl (UseAfterFree 0, s)
       \<and> times_called 3 7 s = 0
       \<and> handles s 7 = []
       \<and> ValueIsDeleted 7 s = Inr s"
  by (simp add: ValueIsDeleted_def deleted_def delete_this_def Notify_On_Value_Delete_def
      new_GNATCallbackVH_def no_registrations_def times_called_def)

end
